theory Spec2Isabelle
  imports Complex_Main
begin

section \<open>Python values\<close>

text \<open>
  The controller keeps values decoded from JSON in its globals and builds its waypoints
  as plain tuples, so one type of Python values covers both. A float is modelled as a
  real number. A JSON object is an association list (its keys are strings; the first
  entry of a key is its binding).
\<close>

datatype pyval =
    PNone
  | PBool bool
  | PInt int
  | PFloat real
  | PStr string
  | PList "pyval list"
  | PTuple "pyval list"
  | PDict "(string \<times> pyval) list"

datatype exn = KeyError | TypeError | ValueError | AttributeError | RequestError

text \<open>Python truthiness, as \<open>if v:\<close> and \<open>and\<close> read it.\<close>

fun truthy :: "pyval \<Rightarrow> bool" where
  "truthy PNone = False"
| "truthy (PBool b) = b"
| "truthy (PInt i) = (i \<noteq> 0)"
| "truthy (PFloat r) = (r \<noteq> 0)"
| "truthy (PStr s) = (s \<noteq> [])"
| "truthy (PList xs) = (xs \<noteq> [])"
| "truthy (PTuple xs) = (xs \<noteq> [])"
| "truthy (PDict kvs) = (kvs \<noteq> [])"

text \<open>\<open>v[key]\<close> with a string key: only a dict answers, anything else raises (None here).\<close>

fun getitem :: "pyval \<Rightarrow> string \<Rightarrow> pyval option" where
  "getitem (PDict kvs) k = map_of kvs k"
| "getitem _ k = None"

text \<open>\<open>v[0]\<close>: sequences answer when non-empty; a JSON dict has no key \<open>0\<close>.\<close>

fun getindex0 :: "pyval \<Rightarrow> pyval option" where
  "getindex0 (PList (x # xs)) = Some x"
| "getindex0 (PTuple (x # xs)) = Some x"
| "getindex0 (PStr (c # cs)) = Some (PStr [c])"
| "getindex0 _ = None"

text \<open>\<open>len(v)\<close>: None where Python raises TypeError.\<close>

fun py_len :: "pyval \<Rightarrow> nat option" where
  "py_len (PStr s) = Some (length s)"
| "py_len (PList xs) = Some (length xs)"
| "py_len (PTuple xs) = Some (length xs)"
| "py_len (PDict kvs) = Some (length (remdups (map fst kvs)))"
| "py_len _ = None"

text \<open>
  The numeric reading of a value, used by arithmetic, ordering and the \<open>:.1f\<close> format:
  \<open>bool\<close> is a subclass of \<open>int\<close>; everything that is not a number raises (None here).
\<close>

fun py_num :: "pyval \<Rightarrow> real option" where
  "py_num (PBool b) = Some (if b then 1 else 0)"
| "py_num (PInt i) = Some (real_of_int i)"
| "py_num (PFloat r) = Some r"
| "py_num _ = None"

text \<open>\<open>v != 0\<close>: a number compares by value, any other value differs from 0.\<close>

definition py_ne_zero :: "pyval \<Rightarrow> bool" where
  "py_ne_zero v = (case py_num v of None \<Rightarrow> True | Some r \<Rightarrow> r \<noteq> 0)"

text \<open>\<open>isinstance(v, int)\<close> and the integer it is: \<open>bool\<close> is a subclass of \<open>int\<close>.\<close>

fun py_int :: "pyval \<Rightarrow> int option" where
  "py_int (PBool b) = Some (if b then 1 else 0)"
| "py_int (PInt i) = Some i"
| "py_int _ = None"

text \<open>
  Formatting with \<open>:.1f\<close> or \<open>:.2f\<close> inside an f-string: fine for a number,
  ValueError for a string, TypeError for anything else.
\<close>

fun fmt_float :: "pyval \<Rightarrow> exn + real" where
  "fmt_float (PStr s) = Inl ValueError"
| "fmt_float v = (case py_num v of None \<Rightarrow> Inl TypeError | Some r \<Rightarrow> Inr r)"

text \<open>\<open>v -= 5\<close> on the battery level.\<close>

fun py_sub_int :: "pyval \<Rightarrow> int \<Rightarrow> exn + pyval" where
  "py_sub_int (PBool b) n = Inr (PInt ((if b then 1 else 0) - n))"
| "py_sub_int (PInt i) n = Inr (PInt (i - n))"
| "py_sub_int (PFloat r) n = Inr (PFloat (r - real_of_int n))"
| "py_sub_int _ n = Inl TypeError"

section \<open>Devices, backend and controller state\<close>

text \<open>
  A reply of the backend to one HTTP request: \<open>Raises\<close> when \<open>requests.*\<close> or
  \<open>response.json()\<close> raises (connection error, timeout, body that is not JSON),
  \<open>Json v\<close> when a decoded body arrives.
\<close>

datatype reply = Raises | Json pyval

datatype request =
    GetAssignedJob
  | UpdateSlotAvailability int bool
  | AddRobotLog pyval pyval string real real string
  | UpdateJobTime bool pyval
  | UpdateJobStatus string pyval
  | UpdateRobotAvailability string
  | UpdateBatteryLevel pyval

datatype log =
    LogSlotMarked int
  | LogSlotUpdateError
  | LogSlotNotImplemented int
  | LogInvalidSlot int
  | LogInvalidQuantity
  | LogClampWarning nat pyval
  | LogNoMoreSlots nat
  | LogNoJobs
  | LogJobCheckError
  | LogRotationFailed
  | LogUnknownMovement pyval
  | LogInvalidWaypoint nat pyval
  | LogReadyForNextJob
  | LogJobStatusError

text \<open>
  What the controller does to the outside world, in order of issue: the velocity of a
  wheel (\<open>wheels[i].setVelocity\<close>), the position of an arm joint or a finger
  (\<open>setPosition\<close>), a call of \<open>wait\<close> (which steps the simulation until more than
  the given seconds have passed), the orientation set on the robot node, an HTTP
  request, and a printed report of an anomaly (prints that only narrate progress are
  left out). The devices themselves and the simulator's clock are outside the model.
\<close>

datatype event =
    WheelVelocity nat real
  | ArmPosition nat real
  | FingerPosition nat real
  | Wait real
  | SetSFRotation "pyval list"
  | Request request
  | Print log

datatype direction = Left | Right

text \<open>A cache entry of a shelf slot: the \<open>id\<close> and \<open>available\<close> keys of its dict.\<close>

record slot =
  slot_id :: int
  available :: bool

text \<open>
  The module-level globals. \<open>shelves\<close> maps a shelf name to its slots;
  \<open>BATTERY\<close>, \<open>CAN_QUANTITY\<close> and \<open>CURRENT_JOB_ID\<close> hold whatever the backend
  sent; \<open>current_rotation_duration\<close> is only ever assigned a value that has passed the
  float format, so it is kept as its number; \<open>trace\<close> collects the events issued so far.
\<close>

record state =
  shelves :: "string \<rightharpoonup> slot list"
  BATTERY :: pyval
  CAN_QUANTITY :: pyval
  CURRENT_JOB_ID :: pyval
  JOB_IN_PROGRESS :: bool
  waypoints :: "pyval list"
  current_waypoint_index :: nat
  rotation_start_time :: "real option"
  is_rotating :: bool
  rotation_direction :: "direction option"
  current_rotation_duration :: real
  last_call :: real
  trace :: "event list"

definition emit :: "event list \<Rightarrow> state \<Rightarrow> state" where
  "emit es s = s\<lparr>trace := trace s @ es\<rparr>"

section \<open>Slot inventory\<close>

text \<open>
  \<open>get_available_slots\<close>: the identifiers of the slots of \<open>can_shelf\<close> whose
  \<open>available\<close> field is true, in the order of the cache; KeyError when the shelf
  is not in the cache.
\<close>

definition get_available_slots :: "state \<Rightarrow> exn + int list" where
  "get_available_slots s =
     (case shelves s ''can_shelf'' of
        None \<Rightarrow> Inl KeyError
      | Some slots \<Rightarrow> Inr (map slot_id (filter available slots)))"

text \<open>
  The loop of \<open>mark_slot_unavailable\<close>: the first slot with the identifier is set to
  unavailable and the loop returns; None when no slot has it.
\<close>

fun mark_first :: "int \<Rightarrow> slot list \<Rightarrow> slot list option" where
  "mark_first i [] = None"
| "mark_first i (x # xs) =
     (if slot_id x = i then Some (x\<lparr>available := False\<rparr> # xs)
      else map_option ((#) x) (mark_first i xs))"

text \<open>\<open>slot_json.get("success")\<close>: only a dict has \<open>get\<close> (None: AttributeError).\<close>

fun dict_get :: "pyval \<Rightarrow> string \<Rightarrow> pyval option" where
  "dict_get (PDict kvs) k = Some (case map_of kvs k of None \<Rightarrow> PNone | Some v \<Rightarrow> v)"
| "dict_get _ k = None"

text \<open>
  \<open>mark_slot_unavailable\<close>. The request and the decoding of its body stand before the
  \<open>try\<close>, so their exception leaves the function; everything after is caught and
  ends in \<open>return False\<close>.
\<close>

definition mark_slot_unavailable :: "reply \<Rightarrow> int \<Rightarrow> state \<Rightarrow> exn + (bool \<times> state)" where
  "mark_slot_unavailable r sid s =
     (let s0 = emit [Request (UpdateSlotAvailability sid False)] s in
      case r of
        Raises \<Rightarrow> Inl RequestError
      | Json slot_json \<Rightarrow>
          (case dict_get slot_json ''success'' of
             None \<Rightarrow> Inr (False, emit [Print LogSlotUpdateError] s0)
           | Some ok \<Rightarrow>
               if truthy ok then
                 (case shelves s0 ''can_shelf'' of
                    None \<Rightarrow> Inr (False, emit [Print LogSlotUpdateError] s0)
                  | Some slots \<Rightarrow>
                      (case mark_first sid slots of
                         None \<Rightarrow> Inr (False, s0)
                       | Some slots' \<Rightarrow>
                           Inr (True, emit [Print (LogSlotMarked sid)]
                                  (s0\<lparr>shelves := (shelves s0)(''can_shelf'' \<mapsto> slots')\<rparr>))))
               else Inr (False, s0)))"

section \<open>Reporting to the backend\<close>

text \<open>
  \<open>addRobotLog\<close>, \<open>updateJobTime\<close>, \<open>update_robot_availability\<close> and
  \<open>update_robot_battery\<close> send one request inside \<open>try\<close>, print, and change
  nothing: the reply is not an input of the model. (The payload of \<open>addRobotLog\<close>
  rounds the position to two decimals; timestamps are left out.)
\<close>

definition addRobotLog :: "pyval \<Rightarrow> pyval \<Rightarrow> string \<Rightarrow> real \<Rightarrow> real \<Rightarrow> string \<Rightarrow> state \<Rightarrow> state" where
  "addRobotLog jobId batteryPercentage status x y message s =
     emit [Request (AddRobotLog jobId batteryPercentage status x y message)] s"

definition updateJobTime :: "bool \<Rightarrow> pyval \<Rightarrow> state \<Rightarrow> state" where
  "updateJobTime isStartTime jobId s = emit [Request (UpdateJobTime isStartTime jobId)] s"

definition update_robot_availability :: "string \<Rightarrow> state \<Rightarrow> state" where
  "update_robot_availability status s = emit [Request (UpdateRobotAvailability status)] s"

definition update_robot_battery :: "pyval \<Rightarrow> state \<Rightarrow> state" where
  "update_robot_battery battery_count s = emit [Request (UpdateBatteryLevel battery_count)] s"

text \<open>
  \<open>update_job_status\<close>: on a reply whose \<open>success\<close> is truthy the message is
  printed and \<open>CURRENT_JOB_ID\<close> is reset to 0; every exception is caught.
\<close>

definition update_job_status :: "reply \<Rightarrow> string \<Rightarrow> pyval \<Rightarrow> state \<Rightarrow> state" where
  "update_job_status r status jobId s =
     (let s0 = emit [Request (UpdateJobStatus status jobId)] s in
      case r of
        Raises \<Rightarrow> emit [Print LogJobStatusError] s0
      | Json response_json \<Rightarrow>
          (case getitem response_json ''success'' of
             None \<Rightarrow> emit [Print LogJobStatusError] s0
           | Some ok \<Rightarrow>
               if truthy ok then
                 (case getitem response_json ''message'' of
                    None \<Rightarrow> emit [Print LogJobStatusError] s0
                  | Some m \<Rightarrow> s0\<lparr>CURRENT_JOB_ID := PInt 0\<rparr>)
               else s0))"

section \<open>Motion primitives\<close>

definition TIME_STEP :: int where "TIME_STEP = 32"
definition ROTATING_SPEED :: real where "ROTATING_SPEED = 8"
definition SPEED :: real where "SPEED = 5"

definition rotate_left :: "real \<Rightarrow> event list" where
  "rotate_left speed =
     [WheelVelocity 0 (- speed), WheelVelocity 1 speed, WheelVelocity 2 speed, WheelVelocity 3 (- speed)]"

definition rotate_right :: "real \<Rightarrow> event list" where
  "rotate_right speed =
     [WheelVelocity 0 speed, WheelVelocity 1 (- speed), WheelVelocity 2 (- speed), WheelVelocity 3 speed]"

definition drive_forward :: "real \<Rightarrow> event list" where
  "drive_forward speed =
     [WheelVelocity 0 speed, WheelVelocity 1 speed, WheelVelocity 2 speed, WheelVelocity 3 speed]"

definition drive_backward :: "real \<Rightarrow> event list" where
  "drive_backward speed =
     [WheelVelocity 0 (- speed), WheelVelocity 1 (- speed), WheelVelocity 2 (- speed), WheelVelocity 3 (- speed)]"

definition stop :: "event list" where
  "stop = [WheelVelocity 0 0, WheelVelocity 1 0, WheelVelocity 2 0, WheelVelocity 3 0]"

definition calculate_distance :: "real \<times> real \<Rightarrow> real \<times> real \<Rightarrow> real" where
  "calculate_distance pos1 pos2 = sqrt ((fst pos2 - fst pos1)\<^sup>2 + (snd pos2 - snd pos1)\<^sup>2)"

section \<open>Pick sequencer\<close>

definition fingers_to :: "real \<Rightarrow> event list" where
  "fingers_to p = [FingerPosition 0 p, FingerPosition 1 p]"

text \<open>The reset of the five arm joints and the two fingers that opens every pick.\<close>

definition reset_positions :: "event list" where
  "reset_positions =
     [ArmPosition 0 0, ArmPosition 1 0, ArmPosition 2 0, ArmPosition 3 0, ArmPosition 4 0,
      FingerPosition 0 0, FingerPosition 1 0]"

text \<open>
  The part of \<open>pick_can_from_slot\<close> after the branch on the slot: grip, lift, turn,
  drop, return to neutral. Its parameters are the local variables the branch has set.
\<close>

definition pick_and_drop :: "real \<Rightarrow> real \<Rightarrow> real option \<Rightarrow> real \<Rightarrow> real \<Rightarrow> event list" where
  "pick_and_drop arm1_rotate arm2_drop arm3_drop gripper_release release_wait =
     fingers_to 0 @ [Wait 2.5,
       ArmPosition 1 0.75, Wait 2,
       ArmPosition 0 arm1_rotate, Wait 2,
       ArmPosition 1 arm2_drop, Wait 2]
     @ (case arm3_drop of None \<Rightarrow> [] | Some p \<Rightarrow> [ArmPosition 2 p, Wait 2])
     @ fingers_to gripper_release @ [Wait release_wait,
       ArmPosition 1 0.90, Wait 2,
       ArmPosition 0 0, Wait 2,
       ArmPosition 2 0, Wait 2,
       ArmPosition 3 0, Wait 2,
       ArmPosition 1 0, Wait 2]
     @ fingers_to 0.02 @ [Wait 2]"

text \<open>The slot-specific part: nothing but a report for the slots 1 and 3 and for any other id.\<close>

definition slot_choreography :: "int \<Rightarrow> event list" where
  "slot_choreography sid =
     (if sid = 2 then
        fingers_to 0.025 @ [Wait 2,
          ArmPosition 1 (- 0.80), Wait 1.5,
          ArmPosition 2 0, Wait 2.5,
          ArmPosition 3 (- 0.82),
          ArmPosition 3 (- 1.72), Wait 2.5]
        @ pick_and_drop (- 2.94) (- 0.52) (Some (- 0.84)) 0.02 2
      else if sid = 4 then
        fingers_to 0.025 @ [Wait 2,
          ArmPosition 3 1.45, Wait 2.5,
          ArmPosition 2 (- 1.15), Wait 2.5,
          ArmPosition 1 (- 0.92), Wait 1.5,
          ArmPosition 3 (- 0.30),
          ArmPosition 3 (- 1.32), Wait 2.5]
        @ pick_and_drop (- 2.94) (- 0.32) None 0.02 2
      else if sid = 1 then [Print (LogSlotNotImplemented 1)]
      else if sid = 3 then [Print (LogSlotNotImplemented 3)]
      else [Print (LogInvalidSlot sid)])"

text \<open>\<open>pick_can_from_slot\<close>: what it issues, in order. It touches no global.\<close>

definition pick_can_from_slot :: "int \<Rightarrow> event list" where
  "pick_can_from_slot sid = stop @ reset_positions @ [Wait 2] @ slot_choreography sid"

text \<open>
  The loop \<open>for i in range(quantity)\<close> of \<open>pick_can_quantity\<close>, from index \<open>i\<close>
  with \<open>n\<close> iterations left; \<open>replies k\<close> is the backend's reply to the slot update
  of iteration \<open>k\<close>. The value \<open>mark_slot_unavailable\<close> returns is dropped.
\<close>

primrec pick_loop :: "(nat \<Rightarrow> reply) \<Rightarrow> int list \<Rightarrow> nat \<Rightarrow> nat \<Rightarrow> state \<Rightarrow> exn + state" where
  "pick_loop replies available_slots i 0 s = Inr s"
| "pick_loop replies available_slots i (Suc n) s =
     (if i < length available_slots then
        (let sid = available_slots ! i in
         case mark_slot_unavailable (replies i) sid (emit (pick_can_from_slot sid) s) of
           Inl ex \<Rightarrow> Inl ex
         | Inr (ok, s') \<Rightarrow> pick_loop replies available_slots (Suc i) n s')
      else Inr (emit [Print (LogNoMoreSlots i)] s))"

text \<open>
  \<open>pick_can_quantity\<close>. It has no \<open>return\<close> with a value: the caller gets None,
  the first component of the result.
\<close>

definition pick_can_quantity :: "(nat \<Rightarrow> reply) \<Rightarrow> pyval \<Rightarrow> real \<Rightarrow> real \<Rightarrow> state \<Rightarrow> exn + (pyval \<times> state)" where
  "pick_can_quantity replies quantity x y s =
     (case py_int quantity of
        None \<Rightarrow> Inr (PNone, emit [Print LogInvalidQuantity] s)
      | Some q \<Rightarrow>
          if q \<le> 0 then Inr (PNone, emit [Print LogInvalidQuantity] s)
          else
            (let s1 = addRobotLog (CURRENT_JOB_ID s) (BATTERY s) ''Working'' x y
                        ''Starting pick can sequence'' s in
             case get_available_slots s1 of
               Inl ex \<Rightarrow> Inl ex
             | Inr available_slots \<Rightarrow>
                 (let clamp = int (length available_slots) < q;
                      s2 = (if clamp
                            then emit [Print (LogClampWarning (length available_slots) quantity)] s1
                            else s1);
                      n = (if clamp then length available_slots else nat q) in
                  case pick_loop replies available_slots 0 n s2 of
                    Inl ex \<Rightarrow> Inl ex
                  | Inr s3 \<Rightarrow>
                      Inr (PNone, addRobotLog (CURRENT_JOB_ID s3) (BATTERY s3) ''Working'' x y
                                    ''Completed picking can operation'' s3))))"

section \<open>Job lifecycle\<close>

text \<open>The plan of a job: the waypoint tuples \<open>check_allocated_job\<close> builds.\<close>

definition new_waypoints :: "pyval \<Rightarrow> pyval list" where
  "new_waypoints quantity =
     [PTuple [PFloat 1.68, PFloat (- 3.06), PStr ''backward''],
      PTuple [PStr ''turn_right'', PFloat 11.0],
      PTuple [PFloat 1.93, PFloat (- 0.59), PStr ''forward''],
      PTuple [PStr ''pick_can'', quantity],
      PTuple [PFloat 1.83, PFloat (- 3.20), PStr ''backward''],
      PTuple [PStr ''turn_left'', PFloat 3.0],
      PTuple [PInt 0, PInt 0, PInt 1, PInt 0, PStr ''rotation''],
      PTuple [PFloat 0.70, PFloat (- 3.06), PStr ''backward''],
      PTuple [PFloat 3.019, PFloat (- 3.06), PStr ''forward'']]"

text \<open>
  \<open>check_allocated_job\<close>: the whole body is inside \<open>try\<close>, so each exception ends
  in the report of the \<open>except\<close> branch with the assignments made so far kept.
  \<open>CURRENT_JOB_ID\<close> is assigned before the items of the job are looked at.
\<close>

definition check_allocated_job :: "reply \<Rightarrow> state \<Rightarrow> state" where
  "check_allocated_job r s =
     (let s0 = emit [Request GetAssignedJob] s;
          failed = (\<lambda>s'. emit [Print LogJobCheckError] s') in
      case r of
        Raises \<Rightarrow> failed s0
      | Json response_json \<Rightarrow>
      (case getitem response_json ''success'' of
        None \<Rightarrow> failed s0
      | Some ok \<Rightarrow>
      if \<not> truthy ok then emit [Print LogNoJobs] s0 else
      (case getitem response_json ''data'' of
        None \<Rightarrow> failed s0
      | Some data \<Rightarrow>
      (case py_len data of
        None \<Rightarrow> failed s0
      | Some n \<Rightarrow>
      if \<not> n > 0 then emit [Print LogNoJobs] s0 else
      (case getitem data ''_id'' of
        None \<Rightarrow> failed s0
      | Some job_id \<Rightarrow>
      (let s1 = s0\<lparr>CURRENT_JOB_ID := job_id\<rparr> in
      (case getitem data ''items'' of
        None \<Rightarrow> failed s1
      | Some job_items \<Rightarrow>
      (case py_len job_items of
        None \<Rightarrow> failed s1
      | Some m \<Rightarrow>
      if m \<noteq> 1 then s1 else
      (case getindex0 job_items of
        None \<Rightarrow> failed s1
      | Some item \<Rightarrow>
      (case getitem item ''name'' of
        None \<Rightarrow> failed s1
      | Some name \<Rightarrow>
      if name \<noteq> PStr ''Can'' then s1 else
      (case getitem item ''quantity'' of
        None \<Rightarrow> failed s1
      | Some quantity \<Rightarrow>
      (let s2 = s1\<lparr>CAN_QUANTITY := quantity\<rparr>;
           s3 = addRobotLog (CURRENT_JOB_ID s2) (BATTERY s2) ''Working'' 2.96 (- 3.06)
                  ''Starting Job to Pick Cans'' s2;
           s4 = updateJobTime True (CURRENT_JOB_ID s3) s3
       in s4\<lparr>JOB_IN_PROGRESS := True, waypoints := new_waypoints (CAN_QUANTITY s4)\<rparr>))))))))))))"

section \<open>The main loop\<close>

text \<open>
  What one iteration of the main loop reads from outside: the wall clock
  (\<open>time.time()\<close>), the simulation clock (\<open>robot.getTime()\<close>), the GPS position,
  whether the rotation field of the robot node can be reached, and the backend's
  replies to the requests whose answer the controller acts on.
\<close>

record env =
  now :: real
  sim_time :: real
  gps :: "real \<times> real"
  rotation_field_ok :: bool
  job_reply :: reply
  status_reply :: reply
  slot_reply :: "nat \<Rightarrow> reply"

text \<open>The poll guard: lines 530 to 540 of the loop body.\<close>

definition poll_guard :: "env \<Rightarrow> state \<Rightarrow> state" where
  "poll_guard e s =
     (if now e - last_call s \<ge> 10 \<and> \<not> JOB_IN_PROGRESS s
      then (check_allocated_job (job_reply e) s)\<lparr>last_call := now e\<rparr>
      else s)"

text \<open>The terminal condition: the plan is consumed (lines 550 to 574).\<close>

definition complete_job :: "env \<Rightarrow> state \<Rightarrow> exn + state" where
  "complete_job e s =
     (let s1 = emit stop s in
      case (if py_ne_zero (CURRENT_JOB_ID s1) then
              (let s2 = updateJobTime False (CURRENT_JOB_ID s1) s1;
                   s3 = addRobotLog (CURRENT_JOB_ID s2) (BATTERY s2) ''Free''
                          (fst (gps e)) (snd (gps e)) ''Completed job!'' s2;
                   s4 = update_job_status (status_reply e) ''completed'' (CURRENT_JOB_ID s3) s3;
                   s5 = update_robot_availability ''idle'' s4
               in case py_sub_int (BATTERY s5) 5 of
                    Inl ex \<Rightarrow> Inl ex
                  | Inr b \<Rightarrow> Inr (update_robot_battery (PInt 5) (s5\<lparr>BATTERY := b\<rparr>)))
            else Inr s1) of
        Inl ex \<Rightarrow> Inl ex
      | Inr s6 \<Rightarrow>
          Inr (emit [Print LogReadyForNextJob]
                 (s6\<lparr>waypoints := [], current_waypoint_index := 0, JOB_IN_PROGRESS := False\<rparr>)))"

text \<open>A turn in progress (lines 579 to 599).\<close>

definition rotating_step :: "env \<Rightarrow> state \<Rightarrow> exn + state" where
  "rotating_step e s =
     (case rotation_start_time s of
        None \<Rightarrow> Inl TypeError
      | Some start \<Rightarrow>
          (let rotation_elapsed = sim_time e - start in
           if rotation_elapsed \<ge> current_rotation_duration s then
             (case rotation_direction s of
                None \<Rightarrow> Inl AttributeError
              | Some d \<Rightarrow>
                  Inr ((emit stop s)\<lparr>is_rotating := False, rotation_start_time := None,
                         current_waypoint_index := current_waypoint_index s + 1\<rparr>))
           else
             Inr (emit (case rotation_direction s of
                          Some Left \<Rightarrow> rotate_left ROTATING_SPEED
                        | Some Right \<Rightarrow> rotate_right ROTATING_SPEED
                        | None \<Rightarrow> []) s)))"

text \<open>\<open>("pick_can", quantity, ...)\<close> (lines 602 to 608).\<close>

definition pick_step :: "env \<Rightarrow> pyval \<Rightarrow> state \<Rightarrow> exn + state" where
  "pick_step e quantity s =
     (let s1 = addRobotLog (CURRENT_JOB_ID s) (BATTERY s) ''Working''
                 (fst (gps e)) (snd (gps e)) ''Beginning to pick can'' s in
      case pick_can_quantity (slot_reply e) quantity (fst (gps e)) (snd (gps e)) s1 of
        Inl ex \<Rightarrow> Inl ex
      | Inr (res, s2) \<Rightarrow> Inr (s2\<lparr>current_waypoint_index := current_waypoint_index s2 + 1\<rparr>))"

text \<open>
  \<open>(x, y, z, angle, 'rotation')\<close> (lines 611 to 621), with \<open>set_robot_rotation\<close>
  inlined: the angle is formatted before anything is done.
\<close>

definition rotation_step :: "env \<Rightarrow> pyval list \<Rightarrow> state \<Rightarrow> exn + state" where
  "rotation_step e ws s =
     (case fmt_float (ws ! 3) of
        Inl ex \<Rightarrow> Inl ex
      | Inr rot_angle \<Rightarrow>
          (let s1 = emit stop s;
               s2 = (if rotation_field_ok e
                     then emit [SetSFRotation [ws ! 0, ws ! 1, ws ! 2, ws ! 3]] s1
                     else emit [Print LogRotationFailed] s1)
           in Inr (s2\<lparr>current_waypoint_index := current_waypoint_index s2 + 1\<rparr>)))"

text \<open>\<open>(x, y, movement_type)\<close> (lines 624 to 646).\<close>

definition move_step :: "env \<Rightarrow> pyval list \<Rightarrow> state \<Rightarrow> exn + state" where
  "move_step e ws s =
     (case (py_num (ws ! 0), py_num (ws ! 1)) of
        (Some target_x, Some target_y) \<Rightarrow>
          (let movement_type = ws ! 2;
               distance = calculate_distance (gps e) (target_x, target_y) in
           if distance < 0.1 then
             (let s1 = addRobotLog (CURRENT_JOB_ID s) (BATTERY s) ''Working''
                         (fst (gps e)) (snd (gps e)) ''Reached Waypoint'' s
              in Inr (emit stop (s1\<lparr>current_waypoint_index := current_waypoint_index s1 + 1\<rparr>)))
           else if movement_type = PStr ''forward'' then Inr (emit (drive_forward SPEED) s)
           else if movement_type = PStr ''backward'' then Inr (emit (drive_backward SPEED) s)
           else
             Inr ((emit (Print (LogUnknownMovement movement_type) # stop) s)
                    \<lparr>current_waypoint_index := current_waypoint_index s + 1\<rparr>))
      | _ \<Rightarrow> Inl TypeError)"

text \<open>\<open>("turn_...", duration)\<close> (lines 649 to 662).\<close>

definition turn_step :: "env \<Rightarrow> pyval list \<Rightarrow> state \<Rightarrow> exn + state" where
  "turn_step e ws s =
     (let turn_command = ws ! 0 in
      case fmt_float (ws ! 1) of
        Inl ex \<Rightarrow> Inl ex
      | Inr duration \<Rightarrow>
          (let s1 = (if turn_command = PStr ''turn_left''
                     then (emit (rotate_left ROTATING_SPEED) s)\<lparr>rotation_direction := Some Left\<rparr>
                     else if turn_command = PStr ''turn_right''
                     then (emit (rotate_right ROTATING_SPEED) s)\<lparr>rotation_direction := Some Right\<rparr>
                     else s)
           in Inr (s1\<lparr>is_rotating := True, rotation_start_time := Some (sim_time e),
                     current_rotation_duration := duration\<rparr>)))"

text \<open>The \<open>else\<close> at the end of the loop body (lines 664 to 666).\<close>

definition fallback_step :: "pyval \<Rightarrow> state \<Rightarrow> state" where
  "fallback_step current_waypoint s =
     (emit [Print (LogInvalidWaypoint (current_waypoint_index s) current_waypoint)] s)
       \<lparr>current_waypoint_index := current_waypoint_index s + 1\<rparr>"

definition is_turn_command :: "pyval \<Rightarrow> bool" where
  "is_turn_command v = (case v of PStr c \<Rightarrow> take 5 c = ''turn_'' | _ \<Rightarrow> False)"

text \<open>
  The dispatch on the current waypoint, in the order of the source
  (lines 576 to 666); the index is inside the plan here.
\<close>

definition interpret_step :: "env \<Rightarrow> state \<Rightarrow> exn + state" where
  "interpret_step e s =
     (let current_waypoint = waypoints s ! current_waypoint_index s in
      if is_rotating s then rotating_step e s
      else
        (case current_waypoint of
           PTuple ws \<Rightarrow>
             if length ws \<ge> 2 \<and> ws ! 0 = PStr ''pick_can'' then pick_step e (ws ! 1) s
             else if length ws = 5 \<and> ws ! 4 = PStr ''rotation'' then rotation_step e ws s
             else if length ws = 3 then move_step e ws s
             else if length ws = 2 \<and> is_turn_command (ws ! 0) then turn_step e ws s
             else Inr (fallback_step current_waypoint s)
         | _ \<Rightarrow> Inr (fallback_step current_waypoint s)))"

text \<open>One iteration of \<open>while robot.step(TIME_STEP) != -1\<close> (lines 528 to 668).\<close>

definition tick :: "env \<Rightarrow> state \<Rightarrow> exn + state" where
  "tick e s =
     (let s1 = poll_guard e s in
      if length (waypoints s1) > 0 then
        (if current_waypoint_index s1 \<ge> length (waypoints s1) then complete_job e s1
         else interpret_step e s1)
      else Inr s1)"

text \<open>The loop over the iterations, one environment each; an exception ends the program.\<close>

fun run :: "env list \<Rightarrow> state \<Rightarrow> exn + state" where
  "run [] s = Inr s"
| "run (e # es) s = (case tick e s of Inl ex \<Rightarrow> Inl ex | Inr s' \<Rightarrow> run es s')"

section \<open>Initial state and the notions the properties use\<close>

text \<open>
  The globals as the module sets them before the loop starts: the shelves and the
  battery level come from the backend, \<open>last_call\<close> is the wall clock at start.
\<close>

definition initial_state :: "(string \<rightharpoonup> slot list) \<Rightarrow> pyval \<Rightarrow> real \<Rightarrow> state" where
  "initial_state sh battery t =
     \<lparr>shelves = sh, BATTERY = battery, CAN_QUANTITY = PInt 0, CURRENT_JOB_ID = PInt 0,
      JOB_IN_PROGRESS = False, waypoints = [], current_waypoint_index = 0,
      rotation_start_time = None, is_rotating = False, rotation_direction = None,
      current_rotation_duration = 0, last_call = t, trace = []\<rparr>"

definition can_shelf :: "slot list \<Rightarrow> (string \<rightharpoonup> slot list)" where
  "can_shelf slots = [''can_shelf'' \<mapsto> slots]"

text \<open>A slot identifier is present in the local cache.\<close>

definition slot_present :: "state \<Rightarrow> int \<Rightarrow> bool" where
  "slot_present s sid =
     (case shelves s ''can_shelf'' of None \<Rightarrow> False | Some slots \<Rightarrow> sid \<in> slot_id ` set slots)"

text \<open>The backend reports success: a decoded object arrives whose \<open>success\<close> is truthy.\<close>

definition reports_success :: "reply \<Rightarrow> bool" where
  "reports_success r =
     (case r of Raises \<Rightarrow> False
      | Json v \<Rightarrow> (case dict_get v ''success'' of None \<Rightarrow> False | Some ok \<Rightarrow> truthy ok))"


fun is_print :: "event \<Rightarrow> bool" where
  "is_print (Print l) = True"
| "is_print _ = False"

text \<open>A trace without its printed reports: the device commands, waits and requests.\<close>

definition commands :: "event list \<Rightarrow> event list" where
  "commands es = filter (\<lambda>e. \<not> is_print e) es"

definition ok_reply :: reply where
  "ok_reply = Json (PDict [(''success'', PBool True)])"

text \<open>
  The job identifier a reply offers: the \<open>_id\<close> of the data of a reply that reports
  success and carries data.
\<close>

definition offered_job_id :: "reply \<Rightarrow> pyval option" where
  "offered_job_id r =
     (case r of
        Raises \<Rightarrow> None
      | Json response_json \<Rightarrow>
          (case getitem response_json ''success'' of
             None \<Rightarrow> None
           | Some ok \<Rightarrow>
               if truthy ok then
                 (case getitem response_json ''data'' of
                    None \<Rightarrow> None
                  | Some data \<Rightarrow>
                      (case py_len data of
                         None \<Rightarrow> None
                       | Some n \<Rightarrow> if n > 0 then getitem data ''_id'' else None))
               else None))"


text \<open>The number of job polls (requests for the assigned job) in a trace.\<close>

definition polls :: "event list \<Rightarrow> nat" where
  "polls es = length (filter (\<lambda>e. e = Request GetAssignedJob) es)"

text \<open>
  Two states hold the same job: flag, plan, job identifier, quantity, battery and poll
  timer agree, and no poll was sent in between.
\<close>

definition same_job :: "state \<Rightarrow> state \<Rightarrow> bool" where
  "same_job s s' \<longleftrightarrow>
     JOB_IN_PROGRESS s' = JOB_IN_PROGRESS s \<and> waypoints s' = waypoints s
     \<and> CURRENT_JOB_ID s' = CURRENT_JOB_ID s \<and> CAN_QUANTITY s' = CAN_QUANTITY s
     \<and> BATTERY s' = BATTERY s \<and> last_call s' = last_call s
     \<and> polls (trace s') = polls (trace s)"

text \<open>The terminal condition of the interpreter: a plan is there and the cursor is past it.\<close>

definition plan_consumed :: "state \<Rightarrow> bool" where
  "plan_consumed s \<longleftrightarrow> waypoints s \<noteq> [] \<and> length (waypoints s) \<le> current_waypoint_index s"

text \<open>An environment of an iteration during a job: simulation time and position.\<close>

definition job_env :: "real \<Rightarrow> real \<times> real \<Rightarrow> env" where
  "job_env t pos = \<lparr>now = 0, sim_time = t, gps = pos, rotation_field_ok = True,
      job_reply = Raises, status_reply = ok_reply, slot_reply = (\<lambda>k. ok_reply)\<rparr>"

text \<open>A controller in the middle of job \<open>J1\<close>, at a given step of a given plan.\<close>

definition active_state :: "pyval list \<Rightarrow> nat \<Rightarrow> state" where
  "active_state plan i =
     (initial_state (can_shelf []) (PInt 100) 0)
       \<lparr>CURRENT_JOB_ID := PStr ''J1'', JOB_IN_PROGRESS := True, waypoints := plan,
        current_waypoint_index := i\<rparr>"

text \<open>The request that reports the battery to the backend.\<close>

fun is_battery_report :: "event \<Rightarrow> bool" where
  "is_battery_report (Request (UpdateBatteryLevel v)) = True"
| "is_battery_report _ = False"

text \<open>
  The four forms of a waypoint step as tuples: \<open>("pick_can", quantity, ...)\<close>,
  \<open>(x, y, z, angle, "rotation")\<close>, \<open>(x, y, movement_type)\<close> and
  \<open>("turn_...", duration)\<close>.
\<close>

definition recognized_shape :: "pyval \<Rightarrow> bool" where
  "recognized_shape w =
     (case w of
        PTuple ws \<Rightarrow>
          (case ws of c # q # rest \<Rightarrow> c = PStr ''pick_can'' | _ \<Rightarrow> False)
          \<or> (case ws of [x, y, z, angle, tag] \<Rightarrow> tag = PStr ''rotation'' | _ \<Rightarrow> False)
          \<or> (case ws of [x, y, movement_type] \<Rightarrow> True | _ \<Rightarrow> False)
          \<or> (case ws of [c, duration] \<Rightarrow> is_turn_command c | _ \<Rightarrow> False)
      | _ \<Rightarrow> False)"

text \<open>The wheel command of a turn in a direction, at the rotating speed.\<close>

definition rotate :: "direction \<Rightarrow> event list" where
  "rotate d = (case d of Left \<Rightarrow> rotate_left ROTATING_SPEED | Right \<Rightarrow> rotate_right ROTATING_SPEED)"

text \<open>A TimedTurn step as the plan holds it: \<open>("turn_left", duration)\<close> or \<open>("turn_right", duration)\<close>.\<close>

definition turn_waypoint :: "direction \<Rightarrow> pyval \<Rightarrow> pyval" where
  "turn_waypoint d duration =
     PTuple [PStr (case d of Left \<Rightarrow> ''turn_left'' | Right \<Rightarrow> ''turn_right''), duration]"

text \<open>
  The state of a turn that started from \<open>s\<close> at time \<open>start\<close> and has issued its
  turn command \<open>n\<close> times.
\<close>

definition turning :: "state \<Rightarrow> direction \<Rightarrow> real \<Rightarrow> real \<Rightarrow> nat \<Rightarrow> state" where
  "turning s d start secs n =
     s\<lparr>rotation_start_time := Some start, is_rotating := True, rotation_direction := Some d,
       current_rotation_duration := secs,
       trace := trace s @ concat (replicate n (rotate d))\<rparr>"

text \<open>Replies and environments of a complete job for two cans.\<close>

definition job_offer :: "int \<Rightarrow> reply" where
  "job_offer q = Json (PDict [(''success'', PBool True),
      (''data'', PDict [(''_id'', PStr ''J1''),
         (''items'', PList [PDict [(''name'', PStr ''Can''), (''quantity'', PInt q)]])])])"

definition done_reply :: reply where
  "done_reply = Json (PDict [(''success'', PBool True), (''message'', PStr ''Job updated'')])"

definition tick_at :: "real \<Rightarrow> real \<times> real \<Rightarrow> env" where
  "tick_at t pos = \<lparr>now = 10, sim_time = t, gps = pos, rotation_field_ok = True,
      job_reply = job_offer 2, status_reply = done_reply, slot_reply = (\<lambda>k. ok_reply)\<rparr>"

section \<open>Slot inventory: properties\<close>

lemma mark_first_None: "mark_first i xs = None \<longleftrightarrow> i \<notin> slot_id ` set xs"
  by (induction xs) auto

lemma mark_first_present: "mark_first i xs = Some ys \<Longrightarrow> i \<in> slot_id ` set xs"
  using mark_first_None[of i xs] by auto

text \<open>
  With a decoded reply, a present slot is handled as the inventory contract asks: the
  call returns whether the backend reported success, the first cache entry of the slot
  is set to unavailable exactly then, and the cache is as before otherwise.
\<close>

lemma mark_slot_unavailable_delivered:
  assumes "shelves s ''can_shelf'' = Some slots" and "sid \<in> slot_id ` set slots"
  shows "\<exists>s' slots'. mark_slot_unavailable (Json v) sid s = Inr (reports_success (Json v), s')
          \<and> shelves s' ''can_shelf'' = Some slots'
          \<and> (reports_success (Json v) \<longrightarrow> mark_first sid slots = Some slots')
          \<and> (\<not> reports_success (Json v) \<longrightarrow> shelves s' = shelves s)"
proof -
  from assms(2) obtain slots' where m: "mark_first sid slots = Some slots'"
    using mark_first_None[of sid slots] by (cases "mark_first sid slots") auto
  show ?thesis
    using assms(1) m
    by (auto simp: mark_slot_unavailable_def reports_success_def emit_def Let_def
             split: option.splits)
qed

text \<open>
  C1. When the request itself fails (connection error, timeout, a body that is not
  JSON) the call should report failure by returning false. The request stands before
  the \<open>try\<close> of \<open>mark_slot_unavailable\<close>, so the call does not return at all: the
  exception leaves the function, on a slot that is present and available.
\<close>

theorem mark_slot_unavailable_request_raises:
  "mark_slot_unavailable Raises 2
     (initial_state (can_shelf [\<lparr>slot_id = 2, available = True\<rparr>]) (PInt 100) 0)
     = Inl RequestError"
  by (simp add: mark_slot_unavailable_def)

text \<open>
  C9 as the code has it. \<open>get_available_slots\<close> returns exactly the identifiers of the
  available slots of \<open>can_shelf\<close>, in the order of the cache; it does not sort, so
  the result is ascending when the cache lists its slots in ascending order.
\<close>

theorem get_available_slots_cache_order:
  assumes "shelves s ''can_shelf'' = Some slots"
  shows "get_available_slots s = Inr (map slot_id (filter available slots))
       \<and> set (map slot_id (filter available slots)) = slot_id ` {x \<in> set slots. available x}
       \<and> (sorted (map slot_id slots) \<longrightarrow> sorted (map slot_id (filter available slots)))"
  using assms by (auto simp: get_available_slots_def sorted_filter)

theorem get_available_slots_cache_order_witness:
  "get_available_slots (initial_state (can_shelf
      [\<lparr>slot_id = 1, available = True\<rparr>, \<lparr>slot_id = 2, available = False\<rparr>,
       \<lparr>slot_id = 3, available = True\<rparr>]) (PInt 100) 0) = Inr [1, 3]"
  using get_available_slots_cache_order [of "initial_state (can_shelf
      [\<lparr>slot_id = 1, available = True\<rparr>, \<lparr>slot_id = 2, available = False\<rparr>,
       \<lparr>slot_id = 3, available = True\<rparr>]) (PInt 100) 0"
      "[\<lparr>slot_id = 1, available = True\<rparr>, \<lparr>slot_id = 2, available = False\<rparr>,
       \<lparr>slot_id = 3, available = True\<rparr>]"]
  by (simp add: initial_state_def can_shelf_def)

text \<open>
  C9 as stated fails: a cache that lists slot 2 before slot 1 gives \<open>[2, 1]\<close>.
\<close>

theorem get_available_slots_not_ascending:
  "get_available_slots (initial_state (can_shelf
      [\<lparr>slot_id = 2, available = True\<rparr>, \<lparr>slot_id = 1, available = True\<rparr>]) (PInt 100) 0)
     = Inr [2, 1] \<and> \<not> sorted [2, 1 :: int]"
  by (simp add: get_available_slots_def initial_state_def can_shelf_def)

text \<open>
  For a slot identifier that is not in the local cache and a decoded reply, success
  included, \<open>mark_slot_unavailable\<close> returns false and leaves the cache as it is; and
  a call that returns true had both a reply reporting success and the slot in the cache.
\<close>

lemma mark_slot_unavailable_absent:
  "(\<not> slot_present s sid \<longrightarrow>
      (\<exists>s'. mark_slot_unavailable (Json v) sid s = Inr (False, s') \<and> shelves s' = shelves s))
   \<and> (mark_slot_unavailable r sid s = Inr (True, s'') \<longrightarrow> reports_success r \<and> slot_present s sid)"
proof (intro conjI impI)
  assume a: "\<not> slot_present s sid"
  then have "\<And>slots. shelves s ''can_shelf'' = Some slots \<Longrightarrow> mark_first sid slots = None"
    by (simp add: slot_present_def mark_first_None)
  then show "\<exists>s'. mark_slot_unavailable (Json v) sid s = Inr (False, s') \<and> shelves s' = shelves s"
    by (auto simp: mark_slot_unavailable_def emit_def Let_def split: option.splits)
next
  assume t: "mark_slot_unavailable r sid s = Inr (True, s'')"
  then show "reports_success r"
    by (auto simp: mark_slot_unavailable_def reports_success_def emit_def Let_def
             split: reply.splits option.splits if_splits)
  from t show "slot_present s sid"
    by (auto simp: mark_slot_unavailable_def slot_present_def emit_def Let_def
             dest: mark_first_present split: reply.splits option.splits if_splits)
qed

lemma mark_slot_unavailable_absent_at_7:
  "\<not> slot_present (initial_state (can_shelf [\<lparr>slot_id = 2, available = True\<rparr>]) (PInt 100) 0) 7
   \<and> fst (projr (mark_slot_unavailable (Json (PDict [(''success'', PBool True)])) 7
       (initial_state (can_shelf [\<lparr>slot_id = 2, available = True\<rparr>]) (PInt 100) 0))) = False
   \<and> mark_slot_unavailable (Json (PDict [(''success'', PBool True)])) 2
       (initial_state (can_shelf [\<lparr>slot_id = 2, available = True\<rparr>]) (PInt 100) 0)
     = Inr (True, (initial_state (can_shelf [\<lparr>slot_id = 2, available = False\<rparr>]) (PInt 100) 0)
          \<lparr>trace := [Request (UpdateSlotAvailability 2 False), Print (LogSlotMarked 2)]\<rparr>)
   \<and> reports_success (Json (PDict [(''success'', PBool True)]))
   \<and> slot_present (initial_state (can_shelf [\<lparr>slot_id = 2, available = True\<rparr>]) (PInt 100) 0) 2"
  using mark_slot_unavailable_absent
    [of "initial_state (can_shelf [\<lparr>slot_id = 2, available = True\<rparr>]) (PInt 100) 0" 7
        "PDict [(''success'', PBool True)]" "Json (PDict [(''success'', PBool True)])"]
  by (simp add: slot_present_def reports_success_def initial_state_def can_shelf_def
        mark_slot_unavailable_def emit_def)

text \<open>
  C10. For a slot identifier that is not in the local cache the call should return false
  and leave the cache unchanged, whatever the backend does. When the request itself
  fails it does not: slot 7 is absent from the cache, the request raises before the
  \<open>try\<close> is entered, and the exception leaves \<open>mark_slot_unavailable\<close> instead of
  the value false.
\<close>

theorem mark_slot_unavailable_absent_request_raises:
  "\<not> slot_present (initial_state (can_shelf [\<lparr>slot_id = 2, available = True\<rparr>]) (PInt 100) 0) 7
   \<and> mark_slot_unavailable Raises 7
       (initial_state (can_shelf [\<lparr>slot_id = 2, available = True\<rparr>]) (PInt 100) 0)
     = Inl RequestError"
  by (simp add: mark_slot_unavailable_def slot_present_def initial_state_def can_shelf_def)

section \<open>Pick sequencer: properties\<close>

lemma commands_append [simp]: "commands (xs @ ys) = commands xs @ commands ys"
  and commands_Nil [simp]: "commands [] = []"
  by (simp_all add: commands_def)

lemma shelves_emit [simp]: "shelves (emit es s) = shelves s"
  and battery_emit [simp]: "BATTERY (emit es s) = BATTERY s"
  and job_id_emit [simp]: "CURRENT_JOB_ID (emit es s) = CURRENT_JOB_ID s"
  and trace_emit [simp]: "trace (emit es s) = trace s @ es"
  by (simp_all add: emit_def)




lemma mark_slot_unavailable_json:
  "\<exists>ok s' es. mark_slot_unavailable (Json v) sid s = Inr (ok, s')
      \<and> trace s' = trace s @ es
      \<and> commands es = [Request (UpdateSlotAvailability sid False)]
      \<and> BATTERY s' = BATTERY s \<and> CURRENT_JOB_ID s' = CURRENT_JOB_ID s"
  by (auto simp: mark_slot_unavailable_def Let_def commands_def split: option.splits)

lemma pick_loop_trace:
  assumes "i + n \<le> length av" and "\<forall>k. i \<le> k \<and> k < i + n \<longrightarrow> replies k \<noteq> Raises"
  shows "\<exists>s' es. pick_loop replies av i n s = Inr s'
      \<and> trace s' = trace s @ es
      \<and> commands es =
          concat (map (\<lambda>sid. commands (pick_can_from_slot sid)
                                 @ [Request (UpdateSlotAvailability sid False)]) (take n (drop i av)))
      \<and> BATTERY s' = BATTERY s \<and> CURRENT_JOB_ID s' = CURRENT_JOB_ID s"
  using assms
proof (induction n arbitrary: i s)
  case 0
  then show ?case by simp
next
  case (Suc n)
  from Suc.prems have i: "i < length av" by simp
  from Suc.prems obtain v where v: "replies i = Json v"
    by (cases "replies i") auto
  let ?s1 = "emit (pick_can_from_slot (av ! i)) s"
  from mark_slot_unavailable_json [of v "av ! i" ?s1]
  obtain ok s2 es2 where m: "mark_slot_unavailable (Json v) (av ! i) ?s1 = Inr (ok, s2)"
    and t2: "trace s2 = trace ?s1 @ es2"
      "commands es2 = [Request (UpdateSlotAvailability (av ! i) False)]"
    and f2: "BATTERY s2 = BATTERY ?s1" "CURRENT_JOB_ID s2 = CURRENT_JOB_ID ?s1"
    by blast
  have "Suc i + n \<le> length av" "\<forall>k. Suc i \<le> k \<and> k < Suc i + n \<longrightarrow> replies k \<noteq> Raises"
    using Suc.prems by auto
  from Suc.IH [OF this, of s2] obtain s' es where
    l: "pick_loop replies av (Suc i) n s2 = Inr s'"
    and t: "trace s' = trace s2 @ es"
      "commands es = concat (map (\<lambda>sid. commands (pick_can_from_slot sid)
                                 @ [Request (UpdateSlotAvailability sid False)]) (take n (drop (Suc i) av)))"
    and f: "BATTERY s' = BATTERY s2" "CURRENT_JOB_ID s' = CURRENT_JOB_ID s2"
    by blast
  have d: "take (Suc n) (drop i av) = av ! i # take n (drop (Suc i) av)"
    using i by (simp add: Cons_nth_drop_Suc [symmetric])
  have "trace s' = trace s @ (pick_can_from_slot (av ! i) @ es2 @ es)"
    using t(1) t2(1) by simp
  moreover have "commands (pick_can_from_slot (av ! i) @ es2 @ es) =
      concat (map (\<lambda>sid. commands (pick_can_from_slot sid)
                                 @ [Request (UpdateSlotAvailability sid False)]) (take (Suc n) (drop i av)))"
    using t(2) t2(2) by (simp add: d)
  ultimately show ?case
    using i v m l f f2 by (intro exI[of _ s'] exI[of _ "pick_can_from_slot (av ! i) @ es2 @ es"]) simp
qed

text \<open>
  C2 as the code has it. With a positive integer \<open>q\<close> and fewer available slots than
  \<open>q\<close>, \<open>pick_can_quantity\<close> warns, clamps to the number of available slots and,
  for each available slot in cache order, runs \<open>pick_can_from_slot\<close> and then sends the
  slot update; when every slot update gets a decoded reply it returns normally. It
  returns None: the number picked is printed, not returned.
\<close>

theorem pick_can_quantity_clamps:
  assumes "0 < q" and "get_available_slots s = Inr av" and "int (length av) < q"
    and "\<forall>k < length av. replies k \<noteq> Raises"
  shows "\<exists>s' es. pick_can_quantity replies (PInt q) x y s = Inr (PNone, s')
      \<and> trace s' = trace s @ es
      \<and> commands es =
          [Request (AddRobotLog (CURRENT_JOB_ID s) (BATTERY s) ''Working'' x y
             ''Starting pick can sequence'')]
          @ concat (map (\<lambda>sid. commands (pick_can_from_slot sid)
                                 @ [Request (UpdateSlotAvailability sid False)]) av)
          @ [Request (AddRobotLog (CURRENT_JOB_ID s) (BATTERY s) ''Working'' x y
               ''Completed picking can operation'')]
      \<and> Print (LogClampWarning (length av) (PInt q)) \<in> set es"
proof -
  let ?s1 = "addRobotLog (CURRENT_JOB_ID s) (BATTERY s) ''Working'' x y
               ''Starting pick can sequence'' s"
  let ?s2 = "emit [Print (LogClampWarning (length av) (PInt q))] ?s1"
  have av1: "get_available_slots ?s1 = Inr av"
    using assms(2) by (simp add: get_available_slots_def addRobotLog_def)
  have "0 + length av \<le> length av"
    and "\<forall>k. 0 \<le> k \<and> k < 0 + length av \<longrightarrow> replies k \<noteq> Raises"
    using assms(4) by auto
  from pick_loop_trace [OF this, of ?s2] obtain s3 es3 where
    l: "pick_loop replies av 0 (length av) ?s2 = Inr s3"
    and t: "trace s3 = trace ?s2 @ es3"
      "commands es3 = concat (map (\<lambda>sid. commands (pick_can_from_slot sid)
                                 @ [Request (UpdateSlotAvailability sid False)]) av)"
    and f: "BATTERY s3 = BATTERY ?s2" "CURRENT_JOB_ID s3 = CURRENT_JOB_ID ?s2"
    by auto
  let ?es = "[Request (AddRobotLog (CURRENT_JOB_ID s) (BATTERY s) ''Working'' x y
               ''Starting pick can sequence''),
              Print (LogClampWarning (length av) (PInt q))] @ es3
            @ [Request (AddRobotLog (CURRENT_JOB_ID s) (BATTERY s) ''Working'' x y
               ''Completed picking can operation'')]"
  have r: "pick_can_quantity replies (PInt q) x y s
      = Inr (PNone, addRobotLog (CURRENT_JOB_ID s) (BATTERY s) ''Working'' x y
               ''Completed picking can operation'' s3)"
    using assms(1,3) av1 l f by (simp add: pick_can_quantity_def addRobotLog_def)
  have "trace (addRobotLog (CURRENT_JOB_ID s) (BATTERY s) ''Working'' x y
               ''Completed picking can operation'' s3) = trace s @ ?es"
    using t(1) by (simp add: addRobotLog_def)
  moreover have "commands ?es =
          [Request (AddRobotLog (CURRENT_JOB_ID s) (BATTERY s) ''Working'' x y
             ''Starting pick can sequence'')]
          @ concat (map (\<lambda>sid. commands (pick_can_from_slot sid)
                                 @ [Request (UpdateSlotAvailability sid False)]) av)
          @ [Request (AddRobotLog (CURRENT_JOB_ID s) (BATTERY s) ''Working'' x y
               ''Completed picking can operation'')]"
    using t(2) by (simp add: commands_def)
  moreover have "Print (LogClampWarning (length av) (PInt q)) \<in> set ?es" by simp
  ultimately show ?thesis using r by blast
qed

theorem pick_can_quantity_clamps_witness:
  "\<exists>s' es. pick_can_quantity (\<lambda>k. ok_reply) (PInt 3) 0 0
       (initial_state (can_shelf [\<lparr>slot_id = 1, available = False\<rparr>,
          \<lparr>slot_id = 2, available = True\<rparr>]) (PInt 100) 0) = Inr (PNone, s')
     \<and> trace s' = es
     \<and> commands es = [Request (AddRobotLog (PInt 0) (PInt 100) ''Working'' 0 0
             ''Starting pick can sequence'')]
          @ commands (pick_can_from_slot 2) @ [Request (UpdateSlotAvailability 2 False)]
          @ [Request (AddRobotLog (PInt 0) (PInt 100) ''Working'' 0 0
               ''Completed picking can operation'')]
     \<and> Print (LogClampWarning 1 (PInt 3)) \<in> set es"
  using pick_can_quantity_clamps [of 3 "initial_state (can_shelf [\<lparr>slot_id = 1, available = False\<rparr>,
          \<lparr>slot_id = 2, available = True\<rparr>]) (PInt 100) 0" "[2]" "\<lambda>k. ok_reply" 0 0]
  by (simp add: get_available_slots_def initial_state_def can_shelf_def ok_reply_def)

text \<open>
  C2 as stated fails: with 3 requested and 1 slot available the call returns None, not 1.
\<close>

theorem pick_can_quantity_returns_none:
  "fst (projr (pick_can_quantity (\<lambda>k. ok_reply) (PInt 3) 0 0
       (initial_state (can_shelf [\<lparr>slot_id = 1, available = False\<rparr>,
          \<lparr>slot_id = 2, available = True\<rparr>]) (PInt 100) 0))) = PNone
   \<and> PNone \<noteq> PInt 1"
  by (simp add: pick_can_quantity_def get_available_slots_def initial_state_def can_shelf_def
        addRobotLog_def mark_slot_unavailable_def ok_reply_def emit_def)

section \<open>Job lifecycle: properties\<close>

lemma check_allocated_job_flag: "JOB_IN_PROGRESS s \<Longrightarrow> JOB_IN_PROGRESS (check_allocated_job r s)"
  by (simp add: check_allocated_job_def Let_def emit_def addRobotLog_def updateJobTime_def
           split: reply.splits option.splits)

text \<open>
  A poll either sets the flag or changes nothing but the trace and, when the reply
  offered a job, the stored job identifier.
\<close>

lemma check_allocated_job_shape:
  "JOB_IN_PROGRESS (check_allocated_job r s) \<or>
   (check_allocated_job r s)\<lparr>trace := t\<rparr> =
     s\<lparr>CURRENT_JOB_ID := (case offered_job_id r of None \<Rightarrow> CURRENT_JOB_ID s | Some j \<Rightarrow> j),
       trace := t\<rparr>"
  by (simp add: check_allocated_job_def Let_def emit_def addRobotLog_def updateJobTime_def
        offered_job_id_def split: reply.split option.split)




section \<open>Main loop: properties\<close>

lemma polls_append [simp]: "polls (xs @ ys) = polls xs + polls ys"
  and polls_Nil [simp]: "polls [] = 0"
  by (simp_all add: polls_def)

lemma polls_device [simp]:
  "polls stop = 0" "polls (rotate_left v) = 0" "polls (rotate_right v) = 0"
  "polls (drive_forward v) = 0" "polls (drive_backward v) = 0"
  "polls (pick_can_from_slot sid) = 0"
  by (simp_all add: polls_def stop_def rotate_left_def rotate_right_def drive_forward_def
        drive_backward_def pick_can_from_slot_def slot_choreography_def reset_positions_def
        pick_and_drop_def fingers_to_def split: option.split)

lemma same_job_refl [simp]: "same_job s s"
  by (simp add: same_job_def)

lemma same_job_trans: "same_job s t \<Longrightarrow> same_job t u \<Longrightarrow> same_job s u"
  by (simp add: same_job_def)

lemma same_job_emit: "polls es = 0 \<Longrightarrow> same_job s (emit es s)"
  by (simp add: same_job_def emit_def)

lemma same_job_index [simp]: "same_job s (t\<lparr>current_waypoint_index := i\<rparr>) = same_job s t"
  by (simp add: same_job_def)

lemma same_job_log [simp]: "same_job s (addRobotLog j b st x y m s)"
  by (simp add: same_job_def addRobotLog_def emit_def polls_def)

lemma same_job_mark: "mark_slot_unavailable r sid s = Inr (ok, s') \<Longrightarrow> same_job s s'"
  by (auto simp: mark_slot_unavailable_def same_job_def emit_def polls_def Let_def
           split: reply.splits option.splits if_splits)

lemma same_job_pick_loop: "pick_loop replies av i n s = Inr s' \<Longrightarrow> same_job s s'"
proof (induction n arbitrary: i s)
  case 0
  then show ?case by simp
next
  case (Suc n)
  show ?case
  proof (cases "i < length av")
    case True
    let ?s1 = "emit (pick_can_from_slot (av ! i)) s"
    from Suc.prems True obtain ok s2 where
      m: "mark_slot_unavailable (replies i) (av ! i) ?s1 = Inr (ok, s2)"
      and l: "pick_loop replies av (Suc i) n s2 = Inr s'"
      by (auto simp: Let_def split: sum.splits)
    have "same_job s ?s1" by (simp add: same_job_emit)
    with same_job_mark [OF m] Suc.IH [OF l] show ?thesis
      by (blast intro: same_job_trans)
  next
    case False
    with Suc.prems show ?thesis by (auto simp: same_job_emit polls_def)
  qed
qed

lemma same_job_pick_can_quantity:
  assumes "pick_can_quantity replies q x y s = Inr (v, s')"
  shows "same_job s s'"
proof (cases "py_int q")
  case None
  with assms show ?thesis by (auto simp: pick_can_quantity_def same_job_emit polls_def)
next
  case (Some n)
  show ?thesis
  proof (cases "n \<le> 0")
    case True
    with Some assms show ?thesis by (auto simp: pick_can_quantity_def same_job_emit polls_def)
  next
    case False
    let ?s1 = "addRobotLog (CURRENT_JOB_ID s) (BATTERY s) ''Working'' x y
                 ''Starting pick can sequence'' s"
    from assms Some False obtain av where av: "get_available_slots ?s1 = Inr av"
      by (cases "get_available_slots ?s1") (auto simp: pick_can_quantity_def Let_def)
    let ?s2 = "if int (length av) < n
               then emit [Print (LogClampWarning (length av) q)] ?s1 else ?s1"
    let ?n = "if int (length av) < n then length av else nat n"
    from assms Some False av obtain s3 where
      l: "pick_loop replies av 0 ?n ?s2 = Inr s3"
      and s': "s' = addRobotLog (CURRENT_JOB_ID s3) (BATTERY s3) ''Working'' x y
                  ''Completed picking can operation'' s3"
      by (cases "pick_loop replies av 0 ?n ?s2") (auto simp: pick_can_quantity_def Let_def)
    have "same_job s ?s2" by (auto simp: polls_def intro: same_job_trans [OF same_job_log same_job_emit])
    with same_job_pick_loop [OF l] have "same_job s s3" by (blast intro: same_job_trans)
    then show ?thesis unfolding s' by (blast intro: same_job_trans same_job_log)
  qed
qed

lemma same_job_rotating_step: "rotating_step e s = Inr s' \<Longrightarrow> same_job s s'"
  by (auto simp: rotating_step_def same_job_def emit_def Let_def
           split: option.splits direction.splits if_splits)

lemma same_job_pick_step: "pick_step e q s = Inr s' \<Longrightarrow> same_job s s'"
  by (auto simp: pick_step_def Let_def split: sum.splits
           intro: same_job_trans [OF same_job_log same_job_pick_can_quantity])

lemma same_job_rotation_step: "rotation_step e ws s = Inr s' \<Longrightarrow> same_job s s'"
  by (auto simp: rotation_step_def same_job_def emit_def Let_def polls_def stop_def
           split: sum.splits if_splits)

lemma same_job_move_step: "move_step e ws s = Inr s' \<Longrightarrow> same_job s s'"
  by (auto simp: move_step_def same_job_def emit_def addRobotLog_def Let_def polls_def stop_def
        drive_forward_def drive_backward_def
           split: option.splits if_splits)

lemma same_job_turn_step: "turn_step e ws s = Inr s' \<Longrightarrow> same_job s s'"
  by (auto simp: turn_step_def same_job_def emit_def Let_def polls_def rotate_left_def
        rotate_right_def split: sum.splits if_splits)

lemma same_job_fallback_step: "same_job s (fallback_step w s)"
  by (simp add: fallback_step_def same_job_def emit_def polls_def)

lemma same_job_interpret_step: "interpret_step e s = Inr s' \<Longrightarrow> same_job s s'"
  by (auto simp: interpret_step_def Let_def same_job_fallback_step
           dest: same_job_rotating_step same_job_pick_step same_job_rotation_step
             same_job_move_step same_job_turn_step
           split: if_splits pyval.splits)

lemma complete_job_clears:
  "complete_job e s = Inr s' \<Longrightarrow>
     \<not> JOB_IN_PROGRESS s' \<and> waypoints s' = [] \<and> current_waypoint_index s' = 0
     \<and> polls (trace s') = polls (trace s)
     \<and> (py_ne_zero (CURRENT_JOB_ID s) \<longrightarrow>
          Request (UpdateJobStatus ''completed'' (CURRENT_JOB_ID s)) \<in> set (trace s'))"
  by (auto simp: complete_job_def Let_def emit_def updateJobTime_def addRobotLog_def
        update_job_status_def update_robot_availability_def update_robot_battery_def
        polls_def stop_def
           split: sum.splits if_splits reply.splits option.splits)

lemma tick_active:
  assumes "JOB_IN_PROGRESS s" and "tick e s = Inr s'"
  shows "polls (trace s') = polls (trace s)
     \<and> (if plan_consumed s
         then \<not> JOB_IN_PROGRESS s'
              \<and> (py_ne_zero (CURRENT_JOB_ID s) \<longrightarrow>
                   Request (UpdateJobStatus ''completed'' (CURRENT_JOB_ID s)) \<in> set (trace s'))
         else same_job s s')"
proof -
  have p: "poll_guard e s = s" using assms(1) by (simp add: poll_guard_def)
  show ?thesis
  proof (cases "plan_consumed s")
    case True
    with assms(2) have "complete_job e s = Inr s'"
      by (simp add: tick_def p plan_consumed_def)
    from complete_job_clears [OF this] True show ?thesis by simp
  next
    case False
    show ?thesis
    proof (cases "waypoints s = []")
      case True
      with assms(2) have "s' = s" by (simp add: tick_def p)
      with False show ?thesis by simp
    next
      case ne: False
      with False assms(2) have "interpret_step e s = Inr s'"
        by (simp add: tick_def p plan_consumed_def)
      from same_job_interpret_step [OF this] False show ?thesis by (simp add: same_job_def)
    qed
  qed
qed

text \<open>
  A plan is only ever there while the flag is set: this holds initially and is kept by
  every iteration, so an idle controller (flag clear) has no plan.
\<close>

lemma tick_plan_needs_flag:
  assumes "JOB_IN_PROGRESS s \<or> waypoints s = []" and "tick e s = Inr s'"
  shows "JOB_IN_PROGRESS s' \<or> waypoints s' = []"
proof (cases "JOB_IN_PROGRESS s")
  case True
  from tick_active [OF True assms(2)] show ?thesis
  proof (cases "plan_consumed s")
    case c: True
    then have "complete_job e s = Inr s'"
      using assms(2) True by (simp add: tick_def poll_guard_def plan_consumed_def)
    from complete_job_clears [OF this] show ?thesis by simp
  next
    case False
    with tick_active [OF True assms(2)] True show ?thesis by (simp add: same_job_def)
  qed
next
  case False
  with assms(1) have w: "waypoints s = []" by simp
  let ?p = "poll_guard e s"
  have i: "JOB_IN_PROGRESS ?p \<or> waypoints ?p = []"
  proof (cases "now e - last_call s \<ge> 10")
    case True
    let ?c = "check_allocated_job (job_reply e) s"
    have "JOB_IN_PROGRESS ?c \<or> waypoints ?c = waypoints s"
      using check_allocated_job_shape [of "job_reply e" s "[]"]
      by (auto dest: arg_cong [where f = waypoints])
    with w True False show ?thesis by (auto simp: poll_guard_def)
  next
    case n: False
    with w show ?thesis by (simp add: poll_guard_def)
  qed
  show ?thesis
  proof (cases "waypoints ?p = []")
    case True
    with assms(2) show ?thesis by (simp add: tick_def)
  next
    case ne: False
    with i have a: "JOB_IN_PROGRESS ?p" by simp
    show ?thesis
    proof (cases "length (waypoints ?p) \<le> current_waypoint_index ?p")
      case True
      with ne assms(2) have "complete_job e ?p = Inr s'" by (simp add: tick_def Let_def)
      from complete_job_clears [OF this] show ?thesis by simp
    next
      case False
      with ne assms(2) have "interpret_step e ?p = Inr s'" by (simp add: tick_def Let_def)
      from same_job_interpret_step [OF this] a show ?thesis by (simp add: same_job_def)
    qed
  qed
qed

lemma run_plan_needs_flag:
  "JOB_IN_PROGRESS s \<or> waypoints s = [] \<Longrightarrow> run es s = Inr s' \<Longrightarrow>
     JOB_IN_PROGRESS s' \<or> waypoints s' = []"
proof (induction es arbitrary: s)
  case Nil
  then show ?case by simp
next
  case (Cons e es)
  from Cons.prems(2) obtain t where t: "tick e s = Inr t" and r: "run es t = Inr s'"
    by (auto split: sum.splits)
  from Cons.IH [OF tick_plan_needs_flag [OF Cons.prems(1) t] r] show ?case .
qed

lemma reachable_plan_needs_flag:
  "run es (initial_state sh battery t) = Inr s' \<Longrightarrow> JOB_IN_PROGRESS s' \<or> waypoints s' = []"
  by (rule run_plan_needs_flag) (simp_all add: initial_state_def)

lemma run_append:
  "run (es1 @ es2) s = (case run es1 s of Inl ex \<Rightarrow> Inl ex | Inr s1 \<Rightarrow> run es2 s1)"
  by (induction es1 arbitrary: s) (auto split: sum.splits)

text \<open>
  C5. While the flag is set the poll guard does nothing, and along any run of the loop
  that starts with the flag set, either the job is still the same at the end (flag set,
  same plan, same job identifier and quantity, no poll sent), or there was a first
  iteration that met the terminal condition (plan consumed): up to it the job was the
  same and no poll was sent, and it cleared the flag after dispatching the completion
  report. So the flag is cleared nowhere else, and no second job starts while one is
  active.
\<close>

theorem no_second_job_while_active:
  assumes "JOB_IN_PROGRESS s" and "run es s = Inr s'"
  shows "poll_guard e0 s = s \<and>
    (same_job s s' \<or>
     (\<exists>es1 e es2 s1 s2. es = es1 @ e # es2 \<and> run es1 s = Inr s1 \<and> same_job s s1
        \<and> plan_consumed s1 \<and> tick e s1 = Inr s2 \<and> \<not> JOB_IN_PROGRESS s2
        \<and> polls (trace s2) = polls (trace s)
        \<and> (py_ne_zero (CURRENT_JOB_ID s) \<longrightarrow>
             Request (UpdateJobStatus ''completed'' (CURRENT_JOB_ID s)) \<in> set (trace s2))))"
proof
  show "poll_guard e0 s = s" using assms(1) by (simp add: poll_guard_def)
next
  from assms show "same_job s s' \<or>
     (\<exists>es1 e es2 s1 s2. es = es1 @ e # es2 \<and> run es1 s = Inr s1 \<and> same_job s s1
        \<and> plan_consumed s1 \<and> tick e s1 = Inr s2 \<and> \<not> JOB_IN_PROGRESS s2
        \<and> polls (trace s2) = polls (trace s)
        \<and> (py_ne_zero (CURRENT_JOB_ID s) \<longrightarrow>
             Request (UpdateJobStatus ''completed'' (CURRENT_JOB_ID s)) \<in> set (trace s2)))"
  proof (induction es arbitrary: s)
    case Nil
    then show ?case by simp
  next
    case (Cons e es)
    from Cons.prems(2) obtain t where t: "tick e s = Inr t" and r: "run es t = Inr s'"
      by (auto split: sum.splits)
    note a = tick_active [OF Cons.prems(1) t]
    show ?case
    proof (cases "plan_consumed s")
      case True
      with a t have "e # es = [] @ e # es \<and> run [] s = Inr s \<and> same_job s s
        \<and> plan_consumed s \<and> tick e s = Inr t \<and> \<not> JOB_IN_PROGRESS t
        \<and> polls (trace t) = polls (trace s)
        \<and> (py_ne_zero (CURRENT_JOB_ID s) \<longrightarrow>
             Request (UpdateJobStatus ''completed'' (CURRENT_JOB_ID s)) \<in> set (trace t))"
        by simp
      then show ?thesis by blast
    next
      case False
      with a have st: "same_job s t" by simp
      then have act: "JOB_IN_PROGRESS t" using Cons.prems(1) by (simp add: same_job_def)
      from Cons.IH [OF act r] show ?thesis
      proof
        assume "same_job t s'"
        with st show ?thesis by (blast intro: same_job_trans)
      next
        assume "\<exists>es1 e es2 s1 s2. es = es1 @ e # es2 \<and> run es1 t = Inr s1 \<and> same_job t s1
          \<and> plan_consumed s1 \<and> tick e s1 = Inr s2 \<and> \<not> JOB_IN_PROGRESS s2
          \<and> polls (trace s2) = polls (trace t)
          \<and> (py_ne_zero (CURRENT_JOB_ID t) \<longrightarrow>
               Request (UpdateJobStatus ''completed'' (CURRENT_JOB_ID t)) \<in> set (trace s2))"
        then obtain es1 e' es2 s1 s2 where
          h: "es = es1 @ e' # es2" "run es1 t = Inr s1" "same_job t s1"
             "plan_consumed s1" "tick e' s1 = Inr s2" "\<not> JOB_IN_PROGRESS s2"
             "polls (trace s2) = polls (trace t)"
             "py_ne_zero (CURRENT_JOB_ID t) \<longrightarrow>
               Request (UpdateJobStatus ''completed'' (CURRENT_JOB_ID t)) \<in> set (trace s2)"
          by blast
        have "e # es = (e # es1) @ e' # es2" using h(1) by simp
        moreover have "run (e # es1) s = Inr s1" using t h(2) by simp
        moreover have "same_job s s1" using st h(3) by (blast intro: same_job_trans)
        moreover have "polls (trace s2) = polls (trace s)" using h(7) st by (simp add: same_job_def)
        moreover have "py_ne_zero (CURRENT_JOB_ID s) \<longrightarrow>
               Request (UpdateJobStatus ''completed'' (CURRENT_JOB_ID s)) \<in> set (trace s2)"
          using h(8) st by (simp add: same_job_def)
        ultimately show ?thesis using h(4,5,6) by blast
      qed
    qed
  qed
qed

theorem no_second_job_while_active_witness:
  "\<exists>s'. run [job_env 0 (0, 0), job_env 1 (0, 0), job_env 3 (0, 0), job_env 4 (0, 0)]
          (active_state [PTuple [PStr ''turn_left'', PFloat 3]] 0) = Inr s'
      \<and> \<not> JOB_IN_PROGRESS s' \<and> polls (trace s') = 0 \<and> BATTERY s' = PInt 95
      \<and> waypoints s' = []"
  using no_second_job_while_active [of "active_state [PTuple [PStr ''turn_left'', PFloat 3]] 0"
      "[job_env 0 (0, 0), job_env 1 (0, 0), job_env 3 (0, 0), job_env 4 (0, 0)]"]
  by (simp add: active_state_def initial_state_def job_env_def tick_def poll_guard_def
        interpret_step_def turn_step_def rotating_step_def is_turn_command_def emit_def
        complete_job_def py_ne_zero_def updateJobTime_def addRobotLog_def update_job_status_def
        update_robot_availability_def update_robot_battery_def ok_reply_def polls_def
        stop_def rotate_left_def ROTATING_SPEED_def)

text \<open>
  C3 as the code has it. When a job with a non-zero identifier completes, the local
  battery level is decremented by 5 and one battery request is sent at the end of the
  completion sequence; it carries the constant 5, the decrement, not the new level.
\<close>

theorem completion_reports_decrement:
  assumes "JOB_IN_PROGRESS s" and "plan_consumed s" and "py_ne_zero (CURRENT_JOB_ID s)"
    and "py_sub_int (BATTERY s) 5 = Inr b"
  shows "\<exists>s' es. tick e s = Inr s' \<and> BATTERY s' = b \<and> trace s' = trace s @ es
      \<and> commands es = stop @
          [Request (UpdateJobTime False (CURRENT_JOB_ID s)),
           Request (AddRobotLog (CURRENT_JOB_ID s) (BATTERY s) ''Free'' (fst (gps e)) (snd (gps e))
              ''Completed job!''),
           Request (UpdateJobStatus ''completed'' (CURRENT_JOB_ID s)),
           Request (UpdateRobotAvailability ''idle''),
           Request (UpdateBatteryLevel (PInt 5))]
      \<and> filter is_battery_report es = [Request (UpdateBatteryLevel (PInt 5))]"
proof -
  have p: "poll_guard e s = s" using assms(1) by (simp add: poll_guard_def)
  have t: "tick e s = complete_job e s"
    using assms(2) by (simp add: tick_def p plan_consumed_def)
  show ?thesis
    unfolding t using assms(3,4)
    by (simp add: complete_job_def Let_def emit_def updateJobTime_def addRobotLog_def
        update_job_status_def update_robot_availability_def update_robot_battery_def
        commands_def stop_def
           split: reply.split option.split)
qed

theorem completion_reports_decrement_witness:
  "\<exists>s'. tick (job_env 0 (3.019, - 3.06)) (active_state (new_waypoints (PInt 1)) 9) = Inr s'
     \<and> BATTERY s' = PInt 95
     \<and> filter is_battery_report (trace s') = [Request (UpdateBatteryLevel (PInt 5))]"
  using completion_reports_decrement [of "active_state (new_waypoints (PInt 1)) 9" "PInt 95"
      "job_env 0 (3.019, - 3.06)"]
  by (auto simp: active_state_def initial_state_def plan_consumed_def new_waypoints_def
        py_ne_zero_def)

text \<open>
  C3 as stated fails: from level 100 the local level becomes 95 and the backend is sent 5.
\<close>

theorem battery_report_is_not_new_level:
  "BATTERY (projr (tick (job_env 0 (3.019, - 3.06)) (active_state (new_waypoints (PInt 1)) 9)))
     = PInt 95
   \<and> filter is_battery_report
       (trace (projr (tick (job_env 0 (3.019, - 3.06)) (active_state (new_waypoints (PInt 1)) 9))))
     = [Request (UpdateBatteryLevel (PInt 5))]
   \<and> PInt 5 \<noteq> PInt 95"
  by (simp add: active_state_def initial_state_def job_env_def tick_def poll_guard_def
        new_waypoints_def emit_def
        complete_job_def py_ne_zero_def updateJobTime_def addRobotLog_def update_job_status_def
        update_robot_availability_def update_robot_battery_def ok_reply_def stop_def)

lemma length_2: "length ws = 2 \<longleftrightarrow> (\<exists>a b. ws = [a, b])"
  and length_3: "length ws = 3 \<longleftrightarrow> (\<exists>a b c. ws = [a, b, c])"
  and length_5: "length ws = 5 \<longleftrightarrow> (\<exists>a b c d f. ws = [a, b, c, d, f])"
  and length_ge_2: "2 \<le> length ws \<longleftrightarrow> (\<exists>a b rest. ws = a # b # rest)"
  by (auto simp: eval_nat_numeral length_Suc_conv Suc_le_length_iff)

lemma recognized_shape_tuple:
  "recognized_shape (PTuple ws) \<longleftrightarrow>
     (2 \<le> length ws \<and> ws ! 0 = PStr ''pick_can'') \<or> (length ws = 5 \<and> ws ! 4 = PStr ''rotation'')
     \<or> length ws = 3 \<or> (length ws = 2 \<and> is_turn_command (ws ! 0))"
  unfolding length_2 length_3 length_5 length_ge_2
  by (auto simp: recognized_shape_def split: list.splits)

text \<open>
  C6 as the code has it. A waypoint that is not a tuple of one of the four forms is
  reported and skipped in the same iteration: the cursor advances by exactly one and
  nothing else happens; no drive command is issued.
\<close>

theorem unrecognized_waypoint_skipped:
  assumes "JOB_IN_PROGRESS s" and "current_waypoint_index s < length (waypoints s)"
    and "\<not> is_rotating s"
    and "\<not> recognized_shape (waypoints s ! current_waypoint_index s)"
  shows "tick e s = Inr (s\<lparr>current_waypoint_index := current_waypoint_index s + 1,
           trace := trace s @ [Print (LogInvalidWaypoint (current_waypoint_index s)
                                  (waypoints s ! current_waypoint_index s))]\<rparr>)"
proof -
  have p: "poll_guard e s = s" using assms(1) by (simp add: poll_guard_def)
  have t: "tick e s = interpret_step e s"
    using assms(2) by (auto simp: tick_def p)
  show ?thesis
  proof (cases "waypoints s ! current_waypoint_index s")
    case (PTuple ws)
    with assms(4) have "\<not> ((2 \<le> length ws \<and> ws ! 0 = PStr ''pick_can'')
       \<or> (length ws = 5 \<and> ws ! 4 = PStr ''rotation'')
       \<or> length ws = 3 \<or> (length ws = 2 \<and> is_turn_command (ws ! 0)))"
      by (simp add: recognized_shape_tuple)
    with PTuple assms(3) show ?thesis
      unfolding t by (auto simp: interpret_step_def fallback_step_def emit_def Let_def)
  qed (use assms(3) in \<open>simp_all add: t interpret_step_def fallback_step_def emit_def Let_def\<close>)
qed

theorem unrecognized_waypoint_skipped_witness:
  "tick (job_env 0 (0, 0)) (active_state [PTuple [PStr ''pick_can'']] 0)
     = Inr ((active_state [PTuple [PStr ''pick_can'']] 0)
         \<lparr>current_waypoint_index := 1,
          trace := [Print (LogInvalidWaypoint 0 (PTuple [PStr ''pick_can'']))]\<rparr>)"
  using unrecognized_waypoint_skipped [of "active_state [PTuple [PStr ''pick_can'']] 0"
      "job_env 0 (0, 0)"]
  by (simp add: active_state_def initial_state_def recognized_shape_def)

text \<open>
  C6 as stated fails: on \<open>("pick_can",)\<close> the iteration advances the cursor and issues
  no command at all, so it does not stop the drive.
\<close>

theorem unrecognized_waypoint_no_stop:
  "\<not> recognized_shape (PTuple [PStr ''pick_can''])
   \<and> current_waypoint_index
       (projr (tick (job_env 0 (0, 0)) (active_state [PTuple [PStr ''pick_can'']] 0))) = 1
   \<and> commands (trace
       (projr (tick (job_env 0 (0, 0)) (active_state [PTuple [PStr ''pick_can'']] 0)))) = []"
  by (simp add: recognized_shape_def active_state_def initial_state_def job_env_def tick_def
        poll_guard_def interpret_step_def fallback_step_def emit_def commands_def Let_def)

section \<open>Timed turns: properties\<close>

lemma fmt_float_num: "py_num v = Some r \<Longrightarrow> fmt_float v = Inr r"
  by (cases v) simp_all

lemma turn_starts:
  assumes "JOB_IN_PROGRESS s" and "current_waypoint_index s < length (waypoints s)"
    and "\<not> is_rotating s"
    and "waypoints s ! current_waypoint_index s = turn_waypoint d duration"
    and "py_num duration = Some secs"
  shows "tick e s = Inr (turning s d (sim_time e) secs 1)"
proof -
  have p: "poll_guard e s = s" using assms(1) by (simp add: poll_guard_def)
  have t: "tick e s = interpret_step e s"
    using assms(2) by (auto simp: tick_def p)
  have "interpret_step e s = turn_step e [PStr (case d of Left \<Rightarrow> ''turn_left'' | Right \<Rightarrow> ''turn_right''), duration] s"
    using assms(3,4)
    by (cases d) (simp_all add: interpret_step_def turn_waypoint_def is_turn_command_def)
  also have "\<dots> = Inr (turning s d (sim_time e) secs 1)"
    using fmt_float_num [OF assms(5)]
    by (cases d) (simp_all add: turn_step_def turning_def rotate_def emit_def)
  finally show ?thesis using t by simp
qed

lemma concat_replicate_snoc: "concat (replicate n xs) @ xs = xs @ concat (replicate n xs)"
  by (induction n) simp_all

lemma turning_fields [simp]:
  "JOB_IN_PROGRESS (turning s d start secs n) = JOB_IN_PROGRESS s"
  "waypoints (turning s d start secs n) = waypoints s"
  "current_waypoint_index (turning s d start secs n) = current_waypoint_index s"
  by (simp_all add: turning_def)

lemma turn_continues:
  assumes "JOB_IN_PROGRESS s" and "current_waypoint_index s < length (waypoints s)"
    and "sim_time e - start < secs"
  shows "tick e (turning s d start secs n) = Inr (turning s d start secs (Suc n))"
proof -
  let ?r = "turning s d start secs n"
  have p: "poll_guard e ?r = ?r" using assms(1) by (simp add: poll_guard_def)
  have t: "tick e ?r = interpret_step e ?r"
    using assms(2) by (auto simp: tick_def p Let_def)
  show ?thesis
    using assms(3) unfolding t
    by (cases d) (simp_all add: interpret_step_def rotating_step_def turning_def rotate_def emit_def
          concat_replicate_snoc)
qed

lemma turn_completes:
  assumes "JOB_IN_PROGRESS s" and "current_waypoint_index s < length (waypoints s)"
    and "sim_time e - start \<ge> secs"
  shows "tick e (turning s d start secs n) =
     Inr (s\<lparr>rotation_start_time := None, is_rotating := False, rotation_direction := Some d,
            current_rotation_duration := secs,
            current_waypoint_index := current_waypoint_index s + 1,
            trace := trace s @ concat (replicate n (rotate d)) @ stop\<rparr>)"
proof -
  let ?r = "turning s d start secs n"
  have p: "poll_guard e ?r = ?r" using assms(1) by (simp add: poll_guard_def)
  have t: "tick e ?r = interpret_step e ?r"
    using assms(2) by (auto simp: tick_def p Let_def)
  show ?thesis
    using assms(3) unfolding t
    by (simp add: interpret_step_def rotating_step_def turning_def emit_def)
qed

lemma run_snoc: "run (es @ [e]) s = (case run es s of Inl ex \<Rightarrow> Inl ex | Inr s1 \<Rightarrow> tick e s1)"
  by (simp add: run_append split: sum.splits)

lemma turn_runs:
  assumes "JOB_IN_PROGRESS s" and "current_waypoint_index s < length (waypoints s)"
    and "\<not> is_rotating s"
    and "waypoints s ! current_waypoint_index s = turn_waypoint d duration"
    and "py_num duration = Some secs"
    and "\<forall>e \<in> set es. sim_time e - sim_time e0 < secs"
  shows "run (e0 # es) s = Inr (turning s d (sim_time e0) secs (Suc (length es)))"
  using assms(6)
proof (induction es rule: rev_induct)
  case Nil
  show ?case using turn_starts [OF assms(1-5)] by simp
next
  case (snoc e es)
  then have "run (e0 # es) s = Inr (turning s d (sim_time e0) secs (Suc (length es)))"
    and "sim_time e - sim_time e0 < secs" by simp_all
  then show ?case
    using turn_continues [OF assms(1,2), of e "sim_time e0" secs d "Suc (length es)"]
      run_snoc [of "e0 # es" e s]
    by simp
qed

lemma rotate_events:
  "rotate d = (case d of
      Left \<Rightarrow> [WheelVelocity 0 (- 8), WheelVelocity 1 8, WheelVelocity 2 8, WheelVelocity 3 (- 8)]
    | Right \<Rightarrow> [WheelVelocity 0 8, WheelVelocity 1 (- 8), WheelVelocity 2 (- 8), WheelVelocity 3 8])"
  by (cases d) (simp_all add: rotate_def rotate_left_def rotate_right_def ROTATING_SPEED_def)

text \<open>
  C8. A TimedTurn step \<open>("turn_left", duration)\<close> or \<open>("turn_right", duration)\<close> that
  starts in iteration \<open>e0\<close> sets the four wheel velocities of its direction (left:
  \<open>-8, 8, 8, -8\<close>; right: \<open>8, -8, -8, 8\<close>) in that iteration and again, unchanged,
  in every following iteration whose elapsed time is below the duration; nothing else is
  issued, the cursor stays and the step is still rotating. The first iteration whose
  elapsed time is at least the duration completes the step: the four wheel velocities
  are set to 0, the cursor advances by exactly one, and the rotation sub-state is
  cleared: \<open>is_rotating\<close> is false and the start time is None (the direction and the
  duration keep their values until the next turn starts).
\<close>

theorem timed_turn:
  assumes "JOB_IN_PROGRESS s" and "current_waypoint_index s < length (waypoints s)"
    and "\<not> is_rotating s"
    and "waypoints s ! current_waypoint_index s =
           PTuple [PStr (case d of Left \<Rightarrow> ''turn_left'' | Right \<Rightarrow> ''turn_right''), duration]"
    and "py_num duration = Some secs"
    and "\<forall>e \<in> set es. sim_time e - sim_time e0 < secs"
  shows "run (e0 # es) s =
           Inr (s\<lparr>rotation_start_time := Some (sim_time e0), is_rotating := True,
                  rotation_direction := Some d, current_rotation_duration := secs,
                  trace := trace s @ concat (replicate (Suc (length es))
                    (case d of
                       Left \<Rightarrow> [WheelVelocity 0 (- 8), WheelVelocity 1 8,
                                WheelVelocity 2 8, WheelVelocity 3 (- 8)]
                     | Right \<Rightarrow> [WheelVelocity 0 8, WheelVelocity 1 (- 8),
                                 WheelVelocity 2 (- 8), WheelVelocity 3 8]))\<rparr>)
    \<and> (\<forall>e. secs \<le> sim_time e - sim_time e0 \<longrightarrow>
          run (e0 # es @ [e]) s =
            Inr (s\<lparr>rotation_start_time := None, is_rotating := False,
                   rotation_direction := Some d, current_rotation_duration := secs,
                   current_waypoint_index := current_waypoint_index s + 1,
                   trace := trace s @ concat (replicate (Suc (length es))
                     (case d of
                        Left \<Rightarrow> [WheelVelocity 0 (- 8), WheelVelocity 1 8,
                                 WheelVelocity 2 8, WheelVelocity 3 (- 8)]
                      | Right \<Rightarrow> [WheelVelocity 0 8, WheelVelocity 1 (- 8),
                                  WheelVelocity 2 (- 8), WheelVelocity 3 8]))
                     @ [WheelVelocity 0 0, WheelVelocity 1 0, WheelVelocity 2 0,
                        WheelVelocity 3 0]\<rparr>))"
proof -
  have w: "waypoints s ! current_waypoint_index s = turn_waypoint d duration"
    using assms(4) by (simp add: turn_waypoint_def)
  note r = turn_runs [OF assms(1-3) w assms(5,6)]
  have "\<And>e. secs \<le> sim_time e - sim_time e0 \<Longrightarrow>
          run (e0 # es @ [e]) s =
            Inr (s\<lparr>rotation_start_time := None, is_rotating := False,
                   rotation_direction := Some d, current_rotation_duration := secs,
                   current_waypoint_index := current_waypoint_index s + 1,
                   trace := trace s @ concat (replicate (Suc (length es)) (rotate d)) @ stop\<rparr>)"
    using turn_completes [OF assms(1,2), of secs _ "sim_time e0" d "Suc (length es)"]
      run_snoc [of "e0 # es" _ s] r
    by simp
  with r show ?thesis
    unfolding rotate_events [symmetric] by (simp add: turning_def stop_def)
qed

theorem timed_turn_witness:
  "run [job_env 0 (0, 0), job_env 1 (0, 0), job_env 2.9 (0, 0), job_env 3 (0, 0)]
     (active_state [PTuple [PStr ''turn_left'', PFloat 3]] 0)
   = Inr ((active_state [PTuple [PStr ''turn_left'', PFloat 3]] 0)
       \<lparr>rotation_start_time := None, is_rotating := False, rotation_direction := Some Left,
        current_rotation_duration := 3, current_waypoint_index := 1,
        trace :=
          [WheelVelocity 0 (- 8), WheelVelocity 1 8, WheelVelocity 2 8, WheelVelocity 3 (- 8),
           WheelVelocity 0 (- 8), WheelVelocity 1 8, WheelVelocity 2 8, WheelVelocity 3 (- 8),
           WheelVelocity 0 (- 8), WheelVelocity 1 8, WheelVelocity 2 8, WheelVelocity 3 (- 8),
           WheelVelocity 0 0, WheelVelocity 1 0, WheelVelocity 2 0, WheelVelocity 3 0]\<rparr>)"
  using timed_turn [of "active_state [PTuple [PStr ''turn_left'', PFloat 3]] 0" Left "PFloat 3" 3
      "[job_env 1 (0, 0), job_env 2.9 (0, 0)]" "job_env 0 (0, 0)"]
  by (simp add: active_state_def initial_state_def job_env_def)

section \<open>A complete job\<close>

text \<open>
  The loop run through a whole job: the poll is answered with a job for two cans, the
  position sensor reports each target as reached, both slots 2 and 4 are available and
  every request succeeds. Both slots end up unavailable, the job is reported, the flag
  is cleared, the battery is decremented once, and one poll was sent.
\<close>

lemma scenario_two_cans:
  "\<exists>s'. run [tick_at 0 (1.68, - 3.06), tick_at 1 (1.68, - 3.06), tick_at 12 (1.68, - 3.06),
             tick_at 20 (1.93, - 0.59), tick_at 21 (1.93, - 0.59), tick_at 90 (1.83, - 3.20),
             tick_at 91 (1.83, - 3.20), tick_at 94 (1.83, - 3.20), tick_at 95 (1.83, - 3.20),
             tick_at 99 (0.70, - 3.06), tick_at 120 (3.019, - 3.06), tick_at 121 (3.019, - 3.06)]
        (initial_state (can_shelf [\<lparr>slot_id = 2, available = True\<rparr>,
            \<lparr>slot_id = 4, available = True\<rparr>]) (PInt 100) 0) = Inr s'
     \<and> \<not> JOB_IN_PROGRESS s' \<and> waypoints s' = [] \<and> BATTERY s' = PInt 95
     \<and> CURRENT_JOB_ID s' = PInt 0 \<and> CAN_QUANTITY s' = PInt 2
     \<and> shelves s' ''can_shelf'' = Some [\<lparr>slot_id = 2, available = False\<rparr>,
            \<lparr>slot_id = 4, available = False\<rparr>]
     \<and> polls (trace s') = 1
     \<and> filter is_battery_report (trace s') = [Request (UpdateBatteryLevel (PInt 5))]"
  by (simp add: tick_at_def job_offer_def done_reply_def ok_reply_def initial_state_def can_shelf_def
        tick_def poll_guard_def check_allocated_job_def new_waypoints_def
        interpret_step_def move_step_def turn_step_def rotating_step_def rotation_step_def
        pick_step_def pick_can_quantity_def get_available_slots_def mark_slot_unavailable_def
        complete_job_def py_ne_zero_def calculate_distance_def is_turn_command_def
        updateJobTime_def addRobotLog_def update_job_status_def
        update_robot_availability_def update_robot_battery_def emit_def polls_def Let_def eval_nat_numeral
        stop_def rotate_left_def rotate_right_def pick_can_from_slot_def slot_choreography_def
        reset_positions_def pick_and_drop_def fingers_to_def)

end
